theory Spec2Isabelle
  imports
    Main
    "HOL-Library.Word"
    "HOL-Library.Char_ord"
    "HOL-Library.List_Lexorder"
begin

section \<open>The crime dashboard: loader and aggregations of \<^verbatim>\<open>dashboard.py\<close>\<close>

text \<open>
  The program is a script: \<^verbatim>\<open>load_data\<close> reads two CSV files into one pandas frame
  \<^verbatim>\<open>data\<close>, and three blocks (\<^verbatim>\<open>with tab1:\<close>, \<^verbatim>\<open>with tab2:\<close>, \<^verbatim>\<open>with tab3:\<close>) assign the
  variables \<^verbatim>\<open>filtered_data\<close>, \<^verbatim>\<open>state_data\<close>, \<^verbatim>\<open>yearly_data\<close> and \<^verbatim>\<open>category_data\<close> from
  \<^verbatim>\<open>data\<close> and the three widget values \<^verbatim>\<open>selected_year\<close>, \<^verbatim>\<open>selected_state\<close>,
  \<^verbatim>\<open>selected_crime\<close>. The model keeps that shape: the script's variables are the fields of
  a record that each block takes and returns, and every exception is a value.

  Page layout, CSS, the sidebar widgets and the chart calls are not modelled.
\<close>

subsection \<open>Exceptions\<close>

text \<open>
  \<^verbatim>\<open>KeyError\<close>: a label missing from a dict or from a frame's columns (its payload: the
  missing labels). \<^verbatim>\<open>FileNotFoundError\<close>: \<^verbatim>\<open>read_csv\<close> on a missing path. \<^verbatim>\<open>ValueError\<close>:
  a year text that does not match \<^verbatim>\<open>%Y\<close>, or a column assignment of the wrong length.
  \<^verbatim>\<open>OutOfBoundsDatetime\<close>: a year outside the range of a nanosecond timestamp.
\<close>

datatype error =
    KeyError "string list"
  | FileNotFoundError string
  | ValueError string
  | OutOfBoundsDatetime string

subsection \<open>Frames\<close>

text \<open>
  A frame is held row by row. The three key columns \<^verbatim>\<open>STATE/UT\<close>, \<^verbatim>\<open>DISTRICT\<close> and \<^verbatim>\<open>YEAR\<close>
  are fields of the row; every other column is a count column: \<open>columns\<close> lists their
  labels in order, and \<open>counts r c\<close> is the cell of row \<open>r\<close> in column \<open>c\<close>, \<open>None\<close> for a
  missing cell (pandas' NaN, which \<^verbatim>\<open>sum\<close> skips).

  The year's type \<open>'y\<close> is \<open>string\<close> as the CSV gives it and \<open>int\<close> after \<^verbatim>\<open>load_data\<close>.
  The cell type \<open>'a\<close> is any commutative additive monoid: \<open>64 word\<close> for the int64 columns
  pandas reads from integer fields (their sums wrap), \<open>int\<close> for exact counts. Floating
  point columns, missing key cells and characters beyond Latin-1 are outside the model.
\<close>

record ('y, 'a) crime_record =
  state :: string
  district :: string
  year :: 'y
  counts :: "string \<rightharpoonup> 'a"

record ('y, 'a) frame =
  columns :: "string list"
  rows :: "('y, 'a) crime_record list"

text \<open>\<^verbatim>\<open>frame[mask]\<close>: boolean indexing keeps the rows whose mask is true, in order, in a new frame.\<close>

definition filter_rows ::
  "(('y, 'a) crime_record \<Rightarrow> bool) \<Rightarrow> ('y, 'a) frame \<Rightarrow> ('y, 'a) frame" where
  "filter_rows keep f = f\<lparr>rows := filter keep (rows f)\<rparr>"

text \<open>\<^verbatim>\<open>Series.sum()\<close> of one count column: missing cells are skipped, the empty sum is 0.\<close>

definition cell :: "'a option \<Rightarrow> 'a::comm_monoid_add" where
  "cell v = (case v of None \<Rightarrow> 0 | Some x \<Rightarrow> x)"

definition sum_column :: "string \<Rightarrow> ('y, 'a::comm_monoid_add) crime_record list \<Rightarrow> 'a" where
  "sum_column c rs = sum_list (map (\<lambda>r. cell (counts r c)) rs)"

text \<open>
  \<^verbatim>\<open>frame.groupby(key)[c].sum().reset_index()\<close>: selecting a column the frame does not have
  raises \<^verbatim>\<open>KeyError\<close>, whatever the rows; otherwise there is one row per distinct key,
  the keys in ascending order (\<^verbatim>\<open>sort=True\<close> is the default), each with the sum of column
  \<open>c\<close> over the rows of that key.
\<close>

definition groupby_sum ::
  "(('y, 'a::comm_monoid_add) crime_record \<Rightarrow> 'k::linorder) \<Rightarrow> string \<Rightarrow> ('y, 'a) frame
     \<Rightarrow> error + ('k \<times> 'a) list" where
  "groupby_sum key c f =
     (if c \<notin> set (columns f) then Inl (KeyError [c])
      else Inr (map (\<lambda>k. (k, sum_column c (filter (\<lambda>r. key r = k) (rows f))))
                  (sort (remdups (map key (rows f))))))"

text \<open>
  \<^verbatim>\<open>frame[labels]\<close> with a list of labels: \<^verbatim>\<open>KeyError\<close> naming the labels the frame lacks,
  otherwise the frame with exactly those columns, in the order asked.
\<close>

definition select_columns :: "string list \<Rightarrow> ('y, 'a) frame \<Rightarrow> error + ('y, 'a) frame" where
  "select_columns labels f =
     (case filter (\<lambda>c. c \<notin> set (columns f)) labels of
        [] \<Rightarrow> Inr (f\<lparr>columns := labels\<rparr>)
      | missing \<Rightarrow> Inl (KeyError missing))"

text \<open>
  \<^verbatim>\<open>frame.sum().reset_index()\<close>: one row per column of the frame, in column order, holding
  the column's label and its sum over all rows.
\<close>

definition sum_reset_index :: "('y, 'a::comm_monoid_add) frame \<Rightarrow> (string \<times> 'a) list" where
  "sum_reset_index f = map (\<lambda>c. (c, sum_column c (rows f))) (columns f)"

text \<open>
  \<^verbatim>\<open>table['Category'] = values\<close> on a two-column table: the first column is replaced,
  and a list whose length is not the number of rows raises \<^verbatim>\<open>ValueError\<close>.
\<close>

definition assign_first :: "string list \<Rightarrow> (string \<times> 'a) list \<Rightarrow> error + (string \<times> 'a) list" where
  "assign_first vals t =
     (if length vals \<noteq> length t
      then Inl (ValueError ''Length of values does not match length of index'')
      else Inr (zip vals (map snd t)))"

subsection \<open>The loader\<close>

text \<open>
  The file system maps a path to the frame \<^verbatim>\<open>pd.read_csv\<close> parses from it (CSV parsing
  itself is pandas' and is not modelled); the year cell is the text \<^verbatim>\<open>to_datetime\<close> sees.
\<close>

type_synonym 'a files = "string \<rightharpoonup> (string, 'a) frame"

definition read_csv :: "'a files \<Rightarrow> string \<Rightarrow> error + (string, 'a) frame" where
  "read_csv fs path = (case fs path of None \<Rightarrow> Inl (FileNotFoundError path) | Some f \<Rightarrow> Inr f)"

definition path_2013 :: string where
  "path_2013 = ''Datasets/01_District_wise_crimes_committed_IPC_2013.csv''"

definition path_2001_2012 :: string where
  "path_2001_2012 = ''Datasets/01_District_wise_crimes_committed_IPC_2001_2012.csv''"

text \<open>
  \<^verbatim>\<open>pd.concat([f, g])\<close>: the rows of \<open>f\<close>, then the rows of \<open>g\<close>, none dropped; the columns
  are those of \<open>f\<close> followed by the new ones of \<open>g\<close>, and a row has no cell in a column its
  own frame did not have.
\<close>

definition reindex :: "string list \<Rightarrow> ('y, 'a) crime_record \<Rightarrow> ('y, 'a) crime_record" where
  "reindex cs r = r\<lparr>counts := counts r |` set cs\<rparr>"

definition concat_frames :: "('y, 'a) frame \<Rightarrow> ('y, 'a) frame \<Rightarrow> ('y, 'a) frame" where
  "concat_frames f g =
     \<lparr>columns = columns f @ filter (\<lambda>c. c \<notin> set (columns f)) (columns g),
      rows = map (reindex (columns f)) (rows f) @ map (reindex (columns g)) (rows g)\<rparr>"

text \<open>
  \<^verbatim>\<open>pd.to_datetime(text, format='%Y').dt.year\<close>: \<^verbatim>\<open>%Y\<close> matches exactly four decimal
  digits; the first of January of that year must lie in the range of a nanosecond
  timestamp (1677-09-21 to 2262-04-11), so the year is between 1678 and 2262.
\<close>

definition is_digit :: "char \<Rightarrow> bool" where
  "is_digit c = (c \<in> set ''0123456789'')"

definition digits_value :: "string \<Rightarrow> int" where
  "digits_value s = foldl (\<lambda>n c. 10 * n + (int (of_char c) - 48)) 0 s"

definition to_datetime_year :: "string \<Rightarrow> error + int" where
  "to_datetime_year s =
     (if length s = 4 \<and> list_all is_digit s
      then (if 1678 \<le> digits_value s \<and> digits_value s \<le> 2262
            then Inr (digits_value s) else Inl (OutOfBoundsDatetime s))
      else Inl (ValueError s))"

text \<open>The assignment to the \<^verbatim>\<open>YEAR\<close> column: the first text that fails to parse raises.\<close>

fun convert_years ::
  "(string, 'a) crime_record list \<Rightarrow> error + (int, 'a) crime_record list" where
  "convert_years [] = Inr []"
| "convert_years (r # rs) =
     (case to_datetime_year (year r) of
        Inl e \<Rightarrow> Inl e
      | Inr y \<Rightarrow>
          (case convert_years rs of
             Inl e \<Rightarrow> Inl e
           | Inr rs' \<Rightarrow>
               Inr (\<lparr>state = state r, district = district r, year = y, counts = counts r\<rparr> # rs')))"

text \<open>
  \<^verbatim>\<open>str.strip()\<close>: leading and trailing whitespace removed. The whitespace characters of
  Python below code point 256 are tab, line feed, vertical tab, form feed, carriage
  return, the separators 28 to 31, space, next line (133) and no-break space (160).
\<close>

definition isspace :: "char \<Rightarrow> bool" where
  "isspace c = ((of_char c :: nat) \<in> set [9, 10, 11, 12, 13, 28, 29, 30, 31, 32, 133, 160])"

definition strip :: "string \<Rightarrow> string" where
  "strip s = rev (dropWhile isspace (rev (dropWhile isspace s)))"

definition load_data :: "'a files \<Rightarrow> error + (int, 'a) frame" where
  "load_data fs =
     (case read_csv fs path_2013 of
        Inl e \<Rightarrow> Inl e
      | Inr ipc_2013 \<Rightarrow>
     (case read_csv fs path_2001_2012 of
        Inl e \<Rightarrow> Inl e
      | Inr ipc_2001_2012 \<Rightarrow>
     (let ipc_data = concat_frames ipc_2001_2012 ipc_2013 in
      case convert_years (rows ipc_data) of
        Inl e \<Rightarrow> Inl e
      | Inr rs \<Rightarrow>
          Inr \<lparr>columns = columns ipc_data,
               rows = map (\<lambda>r. r\<lparr>district := strip (district r)\<rparr>)
                        (map (\<lambda>r. r\<lparr>state := strip (state r)\<rparr>) rs)\<rparr>)))"

subsection \<open>The crime types and the filter selection\<close>

text \<open>The dict \<^verbatim>\<open>crime_types\<close>, label to column, in insertion order.\<close>

definition crime_types :: "(string \<times> string) list" where
  "crime_types =
     [(''Murder'', ''MURDER''),
      (''Rape'', ''RAPE''),
      (''Kidnapping & Abduction'', ''KIDNAPPING & ABDUCTION''),
      (''Robbery'', ''ROBBERY''),
      (''Burglary'', ''BURGLARY''),
      (''Theft'', ''THEFT''),
      (''Riots'', ''RIOTS''),
      (''Dowry Deaths'', ''DOWRY DEATHS''),
      (''Assault on Women'', ''ASSAULT ON WOMEN WITH INTENT TO OUTRAGE HER MODESTY''),
      (''Cruelty by Husband'', ''CRUELTY BY HUSBAND OR HIS RELATIVES'')]"

text \<open>\<^verbatim>\<open>crime_types[label]\<close>: a label that is not a key raises \<^verbatim>\<open>KeyError\<close>.\<close>

definition crime_column :: "string \<Rightarrow> error + string" where
  "crime_column label =
     (case map_of crime_types label of None \<Rightarrow> Inl (KeyError [label]) | Some c \<Rightarrow> Inr c)"

record selection =
  selected_year :: int
  selected_state :: string
  selected_crime :: string

subsection \<open>The three aggregations\<close>

text \<open>
  The script's variables. A block reads and assigns them; \<open>data\<close> is what \<^verbatim>\<open>load_data\<close>
  returned. Boolean indexing, \<^verbatim>\<open>groupby(...).sum()\<close> and \<^verbatim>\<open>reset_index()\<close> each build a new
  frame, so no variable shares its cells with \<open>data\<close> and the variables are held by value;
  the two in-place changes of the third block are changes of \<open>category_data\<close> alone.
\<close>

record 'a session =
  data :: "(int, 'a) frame"
  filtered_data :: "(int, 'a) frame"
  state_data :: "(string \<times> 'a) list"
  yearly_data :: "(int \<times> 'a) list"
  category_data :: "(string \<times> 'a) list"

text \<open>
  \<^verbatim>\<open>
  filtered_data = data[data['YEAR'] == selected_year]
  if selected_state != 'All':
      filtered_data = filtered_data[filtered_data['STATE/UT'] == selected_state]
  state_data = filtered_data.groupby('STATE/UT')[crime_types[selected_crime]].sum().reset_index()
  \<close>
\<close>

definition tab1 :: "selection \<Rightarrow> ('a::comm_monoid_add) session \<Rightarrow> error + 'a session" where
  "tab1 sel s =
     (let s1 = s\<lparr>filtered_data := filter_rows (\<lambda>r. year r = selected_year sel) (data s)\<rparr>;
          s2 = (if selected_state sel \<noteq> ''All''
                then s1\<lparr>filtered_data :=
                          filter_rows (\<lambda>r. state r = selected_state sel) (filtered_data s1)\<rparr>
                else s1)
      in case crime_column (selected_crime sel) of
           Inl e \<Rightarrow> Inl e
         | Inr c \<Rightarrow>
             (case groupby_sum state c (filtered_data s2) of
                Inl e \<Rightarrow> Inl e
              | Inr t \<Rightarrow> Inr (s2\<lparr>state_data := t\<rparr>)))"

text \<open>
  \<^verbatim>\<open>
  yearly_data = data.groupby('YEAR')[crime_types[selected_crime]].sum().reset_index()
  \<close>
\<close>

definition tab2 :: "selection \<Rightarrow> ('a::comm_monoid_add) session \<Rightarrow> error + 'a session" where
  "tab2 sel s =
     (case crime_column (selected_crime sel) of
        Inl e \<Rightarrow> Inl e
      | Inr c \<Rightarrow>
          (case groupby_sum year c (data s) of
             Inl e \<Rightarrow> Inl e
           | Inr t \<Rightarrow> Inr (s\<lparr>yearly_data := t\<rparr>)))"

text \<open>
  \<^verbatim>\<open>
  category_data = data[list(crime_types.values())].sum().reset_index()
  category_data.columns = ['Category', 'Count']
  category_data['Category'] = [k for k, v in crime_types.items()]
  \<close>
  The renaming of the two columns changes no cell; the tables here carry no column names.
\<close>

definition tab3 :: "selection \<Rightarrow> ('a::comm_monoid_add) session \<Rightarrow> error + 'a session" where
  "tab3 sel s =
     (case select_columns (map snd crime_types) (data s) of
        Inl e \<Rightarrow> Inl e
      | Inr sub \<Rightarrow>
          (let s1 = s\<lparr>category_data := sum_reset_index sub\<rparr> in
           case assign_first (map fst crime_types) (category_data s1) of
             Inl e \<Rightarrow> Inl e
           | Inr t \<Rightarrow> Inr (s1\<lparr>category_data := t\<rparr>)))"

text \<open>The three blocks in the script's order; an exception in one ends the run.\<close>

definition tabs :: "selection \<Rightarrow> ('a::comm_monoid_add) session \<Rightarrow> error + 'a session" where
  "tabs sel s =
     (case tab1 sel s of
        Inl e \<Rightarrow> Inl e
      | Inr s1 \<Rightarrow>
          (case tab2 sel s1 of
             Inl e \<Rightarrow> Inl e
           | Inr s2 \<Rightarrow> tab3 sel s2))"

subsection \<open>The specification's wording\<close>

text \<open>
  The rows the specification's StateTotals keeps: those of the selected year and, unless the
  selected state is \<^verbatim>\<open>All\<close>, of the selected state.
\<close>

definition kept_rows ::
  "selection \<Rightarrow> (int, 'a) crime_record list \<Rightarrow> (int, 'a) crime_record list" where
  "kept_rows sel rs =
     filter (\<lambda>r. year r = selected_year sel \<and>
                 (selected_state sel \<noteq> ''All'' \<longrightarrow> state r = selected_state sel)) rs"

text \<open>
  StateTotals as the specification words it, a mapping from state to summed count: the
  kept rows are grouped by state and the column \<open>c\<close> of each group is summed; a state with
  no kept row has no entry.
\<close>

definition StateTotals_spec ::
  "(int, 'a::comm_monoid_add) frame \<Rightarrow> selection \<Rightarrow> string \<Rightarrow> (string \<rightharpoonup> 'a)" where
  "StateTotals_spec table sel c =
     (\<lambda>st. if st \<in> set (map state (kept_rows sel (rows table)))
           then Some (sum_list (map (\<lambda>r. cell (counts r c))
                                  (filter (\<lambda>r. state r = st) (kept_rows sel (rows table)))))
           else None)"

text \<open>CategoryTotals as the specification words it: one row per label, the sum of its column.\<close>

definition CategoryTotals_spec ::
  "(int, 'a::comm_monoid_add) frame \<Rightarrow> (string \<times> 'a) list" where
  "CategoryTotals_spec table =
     map (\<lambda>(label, c). (label, sum_list (map (\<lambda>r. cell (counts r c)) (rows table)))) crime_types"

text \<open>A text has no leading and no trailing whitespace.\<close>

definition trimmed :: "string \<Rightarrow> bool" where
  "trimmed s = (case s of [] \<Rightarrow> True | _ \<Rightarrow> \<not> isspace (hd s) \<and> \<not> isspace (last s))"

text \<open>What a run of the three blocks hands to the charts.\<close>

definition outputs ::
  "'a session \<Rightarrow> (string \<times> 'a) list \<times> (int \<times> 'a) list \<times> (string \<times> 'a) list" where
  "outputs s = (state_data s, yearly_data s, category_data s)"

subsection \<open>Concrete inputs\<close>

text \<open>The specification's example: two rows of Maharashtra in 2013, with 10 and 5 murders.\<close>

definition example_table :: "(int, 64 word) frame" where
  "example_table =
     \<lparr>columns = [''MURDER''],
      rows = [\<lparr>state = ''Maharashtra'', district = ''Pune'', year = 2013,
               counts = [''MURDER'' \<mapsto> 10]\<rparr>,
              \<lparr>state = ''Maharashtra'', district = ''Nagpur'', year = 2013,
               counts = [''MURDER'' \<mapsto> 5]\<rparr>]\<rparr>"

definition no_rows :: "(int, 64 word) frame" where
  "no_rows = \<lparr>columns = [], rows = []\<rparr>"

definition example_session :: "64 word session" where
  "example_session =
     \<lparr>data = example_table, filtered_data = no_rows,
      state_data = [], yearly_data = [], category_data = []\<rparr>"

definition murder_2013 :: selection where
  "murder_2013 = \<lparr>selected_year = 2013, selected_state = ''All'', selected_crime = ''Murder''\<rparr>"

definition nowhere_2013 :: selection where
  "nowhere_2013 =
     \<lparr>selected_year = 2013, selected_state = ''Nowhere'', selected_crime = ''Murder''\<rparr>"

definition maharashtra_2013 :: selection where
  "maharashtra_2013 =
     \<lparr>selected_year = 2013, selected_state = ''Maharashtra'', selected_crime = ''Murder''\<rparr>"

text \<open>A table with all ten crime columns, three rows, two states and two years.\<close>

definition full_table :: "(int, 64 word) frame" where
  "full_table =
     \<lparr>columns = map snd crime_types,
      rows = [\<lparr>state = ''Goa'', district = ''North Goa'', year = 2012,
               counts = (\<lambda>c. if c \<in> set (map snd crime_types) then Some 1 else None)\<rparr>,
              \<lparr>state = ''Goa'', district = ''South Goa'', year = 2013,
               counts = (\<lambda>c. if c \<in> set (map snd crime_types) then Some 2 else None)\<rparr>,
              \<lparr>state = ''Kerala'', district = ''Idukki'', year = 2013,
               counts = (\<lambda>c. if c \<in> set (map snd crime_types) then Some 4 else None)\<rparr>]\<rparr>"

definition full_session :: "64 word session" where
  "full_session =
     \<lparr>data = full_table, filtered_data = no_rows,
      state_data = [], yearly_data = [], category_data = []\<rparr>"

text \<open>The same table in a session left over from another run.\<close>

definition stale_session :: "64 word session" where
  "stale_session =
     \<lparr>data = full_table, filtered_data = example_table,
      state_data = [(''Goa'', 9)], yearly_data = [(1999, 9)], category_data = [(''Theft'', 9)]\<rparr>"

definition theft_2012_goa :: selection where
  "theft_2012_goa =
     \<lparr>selected_year = 2012, selected_state = ''Goa'', selected_crime = ''Theft''\<rparr>"

definition murder_2012_goa :: selection where
  "murder_2012_goa =
     \<lparr>selected_year = 2012, selected_state = ''Goa'', selected_crime = ''Murder''\<rparr>"

text \<open>A table with the murder column only: Goa in 2012, Kerala in 2013.\<close>

definition sparse_table :: "(int, 64 word) frame" where
  "sparse_table =
     \<lparr>columns = [''MURDER''],
      rows = [\<lparr>state = ''Goa'', district = ''North Goa'', year = 2012,
               counts = [''MURDER'' \<mapsto> 1]\<rparr>,
              \<lparr>state = ''Kerala'', district = ''Idukki'', year = 2013,
               counts = [''MURDER'' \<mapsto> 2]\<rparr>]\<rparr>"

definition sparse_session :: "64 word session" where
  "sparse_session =
     \<lparr>data = sparse_table, filtered_data = no_rows,
      state_data = [], yearly_data = [], category_data = []\<rparr>"

definition theft_2012_kerala :: selection where
  "theft_2012_kerala =
     \<lparr>selected_year = 2012, selected_state = ''Kerala'', selected_crime = ''Theft''\<rparr>"

text \<open>Two source files: untrimmed names, years as text, and a column only the second has.\<close>

definition ipc_2001_2012_file :: "(string, 64 word) frame" where
  "ipc_2001_2012_file =
     \<lparr>columns = [''MURDER''],
      rows = [\<lparr>state = '' Goa '', district = ''North Goa  '', year = ''2001'',
               counts = [''MURDER'' \<mapsto> 3]\<rparr>]\<rparr>"

definition ipc_2013_file :: "(string, 64 word) frame" where
  "ipc_2013_file =
     \<lparr>columns = [''MURDER'', ''THEFT''],
      rows = [\<lparr>state = ''Kerala'', district = ''  Idukki'', year = ''2013'',
               counts = [''MURDER'' \<mapsto> 7, ''THEFT'' \<mapsto> 2]\<rparr>]\<rparr>"

definition example_files :: "64 word files" where
  "example_files = [path_2013 \<mapsto> ipc_2013_file, path_2001_2012 \<mapsto> ipc_2001_2012_file]"

text \<open>The same two files among others.\<close>

definition more_files :: "64 word files" where
  "more_files = example_files(''Datasets/other.csv'' \<mapsto> ipc_2013_file)"

section \<open>Properties\<close>

subsection \<open>Helper lemmas\<close>

lemma crime_column_Some:
  "map_of crime_types label = Some c \<Longrightarrow> crime_column label = Inr c"
  by (simp add: crime_column_def)

lemma crime_column_Murder: "crime_column ''Murder'' = Inr ''MURDER''"
  by (simp add: crime_column_def crime_types_def)

text \<open>The two filtering steps of \<^verbatim>\<open>tab1\<close> keep the rows of \<open>kept_rows\<close>; with the column present
  the block returns.\<close>

lemma tab1_Inr:
  assumes "map_of crime_types (selected_crime sel) = Some c"
    and "c \<in> set (columns (data s))"
  shows "tab1 sel s =
     Inr (s\<lparr>filtered_data := (data s)\<lparr>rows := kept_rows sel (rows (data s))\<rparr>,
            state_data :=
              map (\<lambda>k. (k, sum_column c (filter (\<lambda>r. state r = k) (kept_rows sel (rows (data s))))))
                (sort (remdups (map state (kept_rows sel (rows (data s))))))\<rparr>)"
  using assms
  by (simp add: tab1_def Let_def crime_column_Some groupby_sum_def filter_rows_def
      kept_rows_def conj_commute)

lemma map_of_group:
  "map_of (map (\<lambda>k. (k, f k)) ks) = (\<lambda>k. if k \<in> set ks then Some (f k) else None)"
  by (induction ks) auto

text \<open>Summing group by group is summing everything, when every element falls in one group.\<close>

lemma sum_groups_set:
  fixes f :: "'r \<Rightarrow> 'a::comm_monoid_add"
  assumes "finite K" and "g ` set xs \<subseteq> K"
  shows "(\<Sum>k\<in>K. sum_list (map f (filter (\<lambda>r. g r = k) xs))) = sum_list (map f xs)"
  using assms(2)
proof (induction xs)
  case Nil
  then show ?case by simp
next
  case (Cons x xs)
  then have in_K: "g x \<in> K" and sub: "g ` set xs \<subseteq> K" by auto
  have "(\<Sum>k\<in>K. sum_list (map f (filter (\<lambda>r. g r = k) (x # xs))))
      = (\<Sum>k\<in>K. (if g x = k then f x else 0) + sum_list (map f (filter (\<lambda>r. g r = k) xs)))"
    by (rule sum.cong) auto
  also have "\<dots> = (\<Sum>k\<in>K. if g x = k then f x else 0)
                 + (\<Sum>k\<in>K. sum_list (map f (filter (\<lambda>r. g r = k) xs)))"
    by (rule sum.distrib)
  also have "(\<Sum>k\<in>K. if g x = k then f x else 0) = f x"
    using assms(1) in_K by (simp add: sum.delta)
  finally show ?case using Cons.IH [OF sub] by simp
qed

lemma sum_groups_list:
  fixes f :: "'r \<Rightarrow> 'a::comm_monoid_add"
  assumes "distinct ks" and "g ` set xs \<subseteq> set ks"
  shows "sum_list (map (\<lambda>k. sum_list (map f (filter (\<lambda>r. g r = k) xs))) ks) = sum_list (map f xs)"
proof -
  have "sum_list (map (\<lambda>k. sum_list (map f (filter (\<lambda>r. g r = k) xs))) ks)
      = (\<Sum>k\<in>set ks. sum_list (map f (filter (\<lambda>r. g r = k) xs)))"
    using assms(1) by (simp add: sum_list_distinct_conv_sum_set)
  also have "\<dots> = sum_list (map f xs)"
    using assms(2) by (intro sum_groups_set) auto
  finally show ?thesis .
qed

lemma sum_groupby_keys:
  fixes g :: "('y, 'a::comm_monoid_add) crime_record \<Rightarrow> 'k::linorder"
  shows "sum_list (map snd (map (\<lambda>k. (k, sum_column c (filter (\<lambda>r. g r = k) xs)))
                              (sort (remdups (map g xs)))))
     = sum_column c xs"
  unfolding sum_column_def
  using sum_groups_list [of "sort (remdups (map g xs))" g xs "\<lambda>r. cell (counts r c)"]
  by (simp add: comp_def)

lemma remdups_single:
  assumes "set xs \<subseteq> {a}"
  shows "length (remdups xs) \<le> 1"
proof -
  have "length (remdups xs) = card (set xs)" by (simp add: length_remdups_card_conv)
  also have "\<dots> \<le> card {a}" using assms by (intro card_mono) auto
  finally show ?thesis by simp
qed

text \<open>With all ten columns in the table the third block returns one row per entry of
  \<open>crime_types\<close>.\<close>

lemma zip_labels_sums:
  "zip (map fst xs) (map (\<lambda>x. f (snd x)) xs) = map (\<lambda>(label, c). (label, f c)) xs"
  by (induction xs) auto

lemma tab3_Inr:
  assumes "set (map snd crime_types) \<subseteq> set (columns (data s))"
  shows "tab3 sel s =
     Inr (s\<lparr>category_data :=
              map (\<lambda>(label, c). (label, sum_column c (rows (data s)))) crime_types\<rparr>)"
proof -
  have none: "filter (\<lambda>c. c \<notin> set (columns (data s))) (map snd crime_types) = []"
    using assms by (auto simp: filter_empty_conv)
  have sel: "select_columns (map snd crime_types) (data s)
               = Inr ((data s)\<lparr>columns := map snd crime_types\<rparr>)"
    by (simp add: select_columns_def none)
  have z: "zip (map fst crime_types) (map (\<lambda>x. sum_column (snd x) (rows (data s))) crime_types)
             = map (\<lambda>(label, c). (label, sum_column c (rows (data s)))) crime_types"
    by (rule zip_labels_sums)
  show ?thesis
    by (simp add: tab3_def sel sum_reset_index_def assign_first_def comp_def z)
qed

text \<open>What each block computes depends on the table and the selection only, and a block
  assigns only its own variables.\<close>

lemma tab1_result:
  "map_sum id state_data (tab1 sel s)
     = (case crime_column (selected_crime sel) of
          Inl e \<Rightarrow> Inl e
        | Inr c \<Rightarrow>
            groupby_sum state c
              (if selected_state sel \<noteq> ''All''
               then filter_rows (\<lambda>r. state r = selected_state sel)
                      (filter_rows (\<lambda>r. year r = selected_year sel) (data s))
               else filter_rows (\<lambda>r. year r = selected_year sel) (data s)))"
  by (simp add: tab1_def Let_def split: sum.splits)

lemma tab2_result:
  "map_sum id yearly_data (tab2 sel s)
     = (case crime_column (selected_crime sel) of
          Inl e \<Rightarrow> Inl e
        | Inr c \<Rightarrow> groupby_sum year c (data s))"
  by (simp add: tab2_def split: sum.splits)

lemma tab3_result:
  "map_sum id category_data (tab3 sel s)
     = (case select_columns (map snd crime_types) (data s) of
          Inl e \<Rightarrow> Inl e
        | Inr sub \<Rightarrow> assign_first (map fst crime_types) (sum_reset_index sub))"
  by (simp add: tab3_def Let_def split: sum.splits)

lemma tab1_frame:
  "tab1 sel s = Inr s' \<Longrightarrow>
     data s' = data s \<and> yearly_data s' = yearly_data s \<and> category_data s' = category_data s"
  by (auto simp: tab1_def Let_def split: sum.splits if_splits)

lemma tab2_frame:
  "tab2 sel s = Inr s' \<Longrightarrow>
     data s' = data s \<and> state_data s' = state_data s \<and> category_data s' = category_data s"
  by (auto simp: tab2_def split: sum.splits)

lemma tab3_frame:
  "tab3 sel s = Inr s' \<Longrightarrow>
     data s' = data s \<and> state_data s' = state_data s \<and> yearly_data s' = yearly_data s"
  by (auto simp: tab3_def Let_def split: sum.splits)

lemma tabs_outputs:
  "map_sum id outputs (tabs sel s)
     = (case map_sum id state_data (tab1 sel s) of
          Inl e \<Rightarrow> Inl e
        | Inr sd \<Rightarrow>
            (case map_sum id yearly_data (tab2 sel s) of
               Inl e \<Rightarrow> Inl e
             | Inr yd \<Rightarrow>
                 (case map_sum id category_data (tab3 sel s) of
                    Inl e \<Rightarrow> Inl e
                  | Inr cd \<Rightarrow> Inr (sd, yd, cd))))"
proof (cases "tab1 sel s")
  case (Inl e)
  then show ?thesis by (simp add: tabs_def)
next
  case s1: (Inr s1)
  note f1 = tab1_frame [OF s1]
  have t2: "map_sum id yearly_data (tab2 sel s1) = map_sum id yearly_data (tab2 sel s)"
    by (simp only: tab2_result f1)
  show ?thesis
  proof (cases "tab2 sel s1")
    case (Inl e)
    then have "map_sum id yearly_data (tab2 sel s) = Inl e" using t2 by simp
    then show ?thesis by (simp add: tabs_def s1 Inl)
  next
    case s2: (Inr s2)
    note f2 = tab2_frame [OF s2]
    have y: "map_sum id yearly_data (tab2 sel s) = Inr (yearly_data s2)" using t2 s2 by simp
    have t3: "map_sum id category_data (tab3 sel s2) = map_sum id category_data (tab3 sel s)"
      by (simp only: tab3_result f1 f2)
    show ?thesis
    proof (cases "tab3 sel s2")
      case (Inl e)
      then have "map_sum id category_data (tab3 sel s) = Inl e" using t3 by simp
      then show ?thesis by (simp add: tabs_def s1 s2 y Inl)
    next
      case s3: (Inr s3)
      note f3 = tab3_frame [OF s3]
      have c: "map_sum id category_data (tab3 sel s) = Inr (category_data s3)"
        using t3 s3 by simp
      show ?thesis by (simp add: tabs_def s1 s2 s3 y c outputs_def f1 f2 f3)
    qed
  qed
qed

lemma tabs_data:
  "tabs sel s = Inr s' \<Longrightarrow> data s' = data s"
  by (auto simp: tabs_def split: sum.splits dest!: tab1_frame tab2_frame tab3_frame)

lemma load_data_reads:
  assumes "fs1 path_2013 = fs2 path_2013" and "fs1 path_2001_2012 = fs2 path_2001_2012"
  shows "load_data fs1 = load_data fs2"
proof -
  have a: "read_csv fs1 path_2013 = read_csv fs2 path_2013"
    by (simp add: read_csv_def assms(1))
  have b: "read_csv fs1 path_2001_2012 = read_csv fs2 path_2001_2012"
    by (simp add: read_csv_def assms(2))
  show ?thesis unfolding load_data_def a b by (rule refl)
qed

text \<open>\<^verbatim>\<open>strip\<close> leaves no whitespace at either end.\<close>

lemma strip_hd: "strip s \<noteq> [] \<Longrightarrow> \<not> isspace (hd (strip s))"
proof -
  assume ne: "strip s \<noteq> []"
  let ?a = "dropWhile isspace s"
  let ?b = "dropWhile isspace (rev ?a)"
  have s: "strip s = rev ?b" by (simp add: strip_def)
  from ne have bne: "?b \<noteq> []" by (simp add: s)
  have ane: "?a \<noteq> []"
  proof
    assume "?a = []"
    then have "?b = []" by (simp only: rev.simps dropWhile.simps)
    with bne show False by contradiction
  qed
  have "hd (rev ?b) = last ?b" using bne by (simp add: hd_rev)
  also have "last ?b = last (rev ?a)"
    using bne by (metis last_appendR takeWhile_dropWhile_id)
  also have "\<dots> = hd ?a" using ane by (simp add: last_rev)
  finally have "hd (strip s) = hd ?a" by (simp add: s)
  then show ?thesis using ane by (simp add: hd_dropWhile)
qed

lemma strip_last: "strip s \<noteq> [] \<Longrightarrow> \<not> isspace (last (strip s))"
proof -
  assume ne: "strip s \<noteq> []"
  let ?b = "dropWhile isspace (rev (dropWhile isspace s))"
  have s: "strip s = rev ?b" by (simp add: strip_def)
  from ne have bne: "?b \<noteq> []" by (simp add: s)
  have "last (strip s) = hd ?b" using bne by (simp add: s last_rev)
  then show ?thesis using bne by (simp add: hd_dropWhile)
qed

lemma trimmed_iff: "trimmed s \<longleftrightarrow> s = [] \<or> (\<not> isspace (hd s) \<and> \<not> isspace (last s))"
  by (cases s) (simp_all add: trimmed_def)

lemma trimmed_strip: "trimmed (strip s)"
  unfolding trimmed_iff using strip_hd [of s] strip_last [of s] by blast

text \<open>The year conversion keeps every row and every other cell, and it succeeds when every
  year text parses; so does the loader when both files are there.\<close>

lemma to_datetime_year_Inr:
  "to_datetime_year s = Inr y \<Longrightarrow> y = digits_value s \<and> length s = 4 \<and> list_all is_digit s"
  by (auto simp: to_datetime_year_def split: if_splits)

lemma convert_years_Inr:
  "convert_years rs = Inr rs' \<Longrightarrow>
     map state rs' = map state rs \<and> map district rs' = map district rs
     \<and> map counts rs' = map counts rs
     \<and> map year rs' = map (\<lambda>r. digits_value (year r)) rs
     \<and> list_all (\<lambda>r. length (year r) = 4 \<and> list_all is_digit (year r)) rs"
proof (induction rs arbitrary: rs')
  case Nil
  then show ?case by simp
next
  case (Cons r rs)
  from Cons.prems obtain y rs'' where
    y: "to_datetime_year (year r) = Inr y" and
    rest: "convert_years rs = Inr rs''" and
    rs': "rs' = \<lparr>state = state r, district = district r, year = y, counts = counts r\<rparr> # rs''"
    by (auto split: sum.splits)
  from Cons.IH [OF rest] to_datetime_year_Inr [OF y] rs' show ?case by simp
qed

lemma convert_years_total:
  "list_all (\<lambda>r. \<exists>y. to_datetime_year (year r) = Inr y) rs \<Longrightarrow> \<exists>rs'. convert_years rs = Inr rs'"
  by (induction rs) auto

lemma load_data_total:
  assumes "fs path_2013 = Some b" and "fs path_2001_2012 = Some a"
    and "list_all (\<lambda>r. \<exists>y. to_datetime_year (year r) = Inr y) (rows a @ rows b)"
  shows "\<exists>d. load_data fs = Inr d"
proof -
  have "list_all (\<lambda>r. \<exists>y. to_datetime_year (year r) = Inr y) (rows (concat_frames a b))"
    using assms(3) by (auto simp: concat_frames_def reindex_def list_all_iff)
  from convert_years_total [OF this] obtain rs where "convert_years (rows (concat_frames a b)) = Inr rs" ..
  then show ?thesis by (simp add: load_data_def read_csv_def assms(1,2) Let_def)
qed

subsection \<open>StateTotals\<close>

text \<open>
  C1. For every table and selection whose crime type is a key of \<open>crime_types\<close> with its
  column in the table, the first block returns, and its \<open>state_data\<close> is the
  specification's StateTotals: the rows of the selected year (and of the selected state,
  unless it is \<^verbatim>\<open>All\<close>) grouped by state, the selected column summed, one row per distinct
  state among the kept rows. On the specification's example (Maharashtra, 2013, 10 and 5
  murders) the result is the single row Maharashtra, 15.
\<close>

theorem C1_state_totals:
  assumes "map_of crime_types (selected_crime sel) = Some c"
    and "c \<in> set (columns (data s))"
  shows "(\<exists>s'. tab1 sel s = Inr s'
            \<and> map_of (state_data s') = StateTotals_spec (data s) sel c
            \<and> distinct (map fst (state_data s'))
            \<and> set (map fst (state_data s')) = state ` set (kept_rows sel (rows (data s))))
       \<and> map_sum id state_data (tab1 murder_2013 (s0\<lparr>data := example_table\<rparr>))
           = Inr [(''Maharashtra'', 15)]"
proof
  let ?kept = "kept_rows sel (rows (data s))"
  let ?t = "map (\<lambda>k. (k, sum_column c (filter (\<lambda>r. state r = k) ?kept)))
              (sort (remdups (map state ?kept)))"
  let ?s' = "s\<lparr>filtered_data := (data s)\<lparr>rows := ?kept\<rparr>, state_data := ?t\<rparr>"
  have run: "tab1 sel s = Inr ?s'" by (rule tab1_Inr [OF assms])
  have keys: "map fst ?t = sort (remdups (map state ?kept))" by (simp add: comp_def)
  have m: "map_of ?t = StateTotals_spec (data s) sel c"
    by (simp add: map_of_group StateTotals_spec_def sum_column_def)
  have d: "distinct (map fst ?t)" by (simp only: keys distinct_sort distinct_remdups)
  have e: "set (map fst ?t) = state ` set ?kept" by (simp only: keys set_sort set_remdups set_map)
  show "\<exists>s'. tab1 sel s = Inr s'
            \<and> map_of (state_data s') = StateTotals_spec (data s) sel c
            \<and> distinct (map fst (state_data s'))
            \<and> set (map fst (state_data s')) = state ` set (kept_rows sel (rows (data s)))"
  proof (intro exI [of _ ?s'] conjI)
    have sd: "state_data ?s' = ?t" by simp
    show "tab1 sel s = Inr ?s'" by (rule run)
    show "map_of (state_data ?s') = StateTotals_spec (data s) sel c" by (simp only: sd m)
    show "distinct (map fst (state_data ?s'))" by (simp only: sd d)
    show "set (map fst (state_data ?s')) = state ` set ?kept" by (simp only: sd e)
  qed
next
  show "map_sum id state_data (tab1 murder_2013 (s0\<lparr>data := example_table\<rparr>))
           = Inr [(''Maharashtra'', 15)]"
    by (simp add: tab1_def Let_def murder_2013_def crime_column_Murder groupby_sum_def
        filter_rows_def example_table_def sum_column_def cell_def)
qed

theorem C1_state_totals_witness:
  "map_of crime_types (selected_crime murder_2013) = Some ''MURDER''
   \<and> ''MURDER'' \<in> set (columns (data example_session))
   \<and> (\<exists>s'. tab1 murder_2013 example_session = Inr s'
          \<and> map_of (state_data s') ''Maharashtra'' = Some 15
          \<and> map_of (state_data s') ''Goa'' = None
          \<and> distinct (map fst (state_data s')))"
proof -
  have h1: "map_of crime_types (selected_crime murder_2013) = Some ''MURDER''"
    by (simp add: murder_2013_def crime_types_def)
  have h2: "''MURDER'' \<in> set (columns (data example_session))"
    by (simp add: example_session_def example_table_def)
  have v1: "StateTotals_spec (data example_session) murder_2013 ''MURDER'' ''Maharashtra''
              = Some 15"
    by (simp add: StateTotals_spec_def kept_rows_def example_session_def example_table_def
        murder_2013_def cell_def)
  have v2: "StateTotals_spec (data example_session) murder_2013 ''MURDER'' ''Goa'' = None"
    by (simp add: StateTotals_spec_def kept_rows_def example_session_def example_table_def
        murder_2013_def)
  from C1_state_totals [OF h1 h2] obtain s' where
    "tab1 murder_2013 example_session = Inr s'"
    "map_of (state_data s') = StateTotals_spec (data example_session) murder_2013 ''MURDER''"
    "distinct (map fst (state_data s'))"
    by blast
  with h1 h2 v1 v2 show ?thesis by simp
qed

text \<open>
  C3. With the selected crime type's column \<open>c\<close> in the table, the counts of \<open>state_data\<close>
  add up to the sum of column \<open>c\<close> over the rows of the table with the selected year
  (and, unless the selected state is \<^verbatim>\<open>All\<close>, the selected state).
\<close>

theorem C3_state_totals_sum:
  assumes "map_of crime_types (selected_crime sel) = Some c"
    and "c \<in> set (columns (data s))"
  shows "\<exists>s'. tab1 sel s = Inr s'
           \<and> sum_list (map snd (state_data s'))
               = sum_column c
                   (filter (\<lambda>r. year r = selected_year sel \<and>
                                (selected_state sel \<noteq> ''All'' \<longrightarrow> state r = selected_state sel))
                      (rows (data s)))"
proof -
  let ?kept = "kept_rows sel (rows (data s))"
  have "sum_list (map snd (map (\<lambda>k. (k, sum_column c (filter (\<lambda>r. state r = k) ?kept)))
                              (sort (remdups (map state ?kept))))) = sum_column c ?kept"
    by (rule sum_groupby_keys)
  then show ?thesis
    unfolding tab1_Inr [OF assms] kept_rows_def by simp
qed

theorem C3_state_totals_sum_witness:
  "map_of crime_types (selected_crime murder_2013) = Some ''MURDER''
   \<and> ''MURDER'' \<in> set (columns (data full_session))
   \<and> (\<exists>s'. tab1 murder_2013 full_session = Inr s' \<and> sum_list (map snd (state_data s')) = 6)"
proof -
  have h1: "map_of crime_types (selected_crime murder_2013) = Some ''MURDER''"
    by (simp add: murder_2013_def crime_types_def)
  have h2: "''MURDER'' \<in> set (columns (data full_session))"
    by (simp add: full_session_def full_table_def crime_types_def)
  have v: "sum_column ''MURDER''
             (filter (\<lambda>r. year r = selected_year murder_2013 \<and>
                          (selected_state murder_2013 \<noteq> ''All''
                             \<longrightarrow> state r = selected_state murder_2013))
                (rows (data full_session))) = (6 :: 64 word)"
    by (simp add: sum_column_def cell_def full_session_def full_table_def murder_2013_def
        crime_types_def)
  from C3_state_totals_sum [OF h1 h2] v h1 h2 show ?thesis by simp
qed

text \<open>
  C9. With a selected state other than \<^verbatim>\<open>All\<close> (and the selected column in the table),
  \<open>state_data\<close> has at most one row, and every row it has is for the selected state.
\<close>

theorem C9_single_state:
  assumes "map_of crime_types (selected_crime sel) = Some c"
    and "c \<in> set (columns (data s))"
    and "selected_state sel \<noteq> ''All''"
  shows "\<exists>s'. tab1 sel s = Inr s'
           \<and> length (state_data s') \<le> 1
           \<and> (\<forall>row \<in> set (state_data s'). fst row = selected_state sel)"
proof -
  let ?kept = "kept_rows sel (rows (data s))"
  have sub: "set (map state ?kept) \<subseteq> {selected_state sel}"
    using assms(3) by (auto simp: kept_rows_def)
  then have len: "length (remdups (map state ?kept)) \<le> 1" by (rule remdups_single)
  show ?thesis
    unfolding tab1_Inr [OF assms(1,2)] using len sub by auto
qed

theorem C9_single_state_witness:
  "map_of crime_types (selected_crime maharashtra_2013) = Some ''MURDER''
   \<and> ''MURDER'' \<in> set (columns (data example_session))
   \<and> selected_state maharashtra_2013 \<noteq> ''All''
   \<and> map_sum id state_data (tab1 maharashtra_2013 example_session) = Inr [(''Maharashtra'', 15)]
   \<and> (\<exists>s'. tab1 maharashtra_2013 example_session = Inr s' \<and> length (state_data s') \<le> 1)"
proof -
  have h1: "map_of crime_types (selected_crime maharashtra_2013) = Some ''MURDER''"
    by (simp add: maharashtra_2013_def crime_types_def)
  have h2: "''MURDER'' \<in> set (columns (data example_session))"
    by (simp add: example_session_def example_table_def)
  have h3: "selected_state maharashtra_2013 \<noteq> ''All''"
    by (simp add: maharashtra_2013_def)
  have v: "map_sum id state_data (tab1 maharashtra_2013 example_session)
             = Inr [(''Maharashtra'', 15)]"
    by (simp add: tab1_def Let_def maharashtra_2013_def crime_column_Murder groupby_sum_def
        filter_rows_def example_session_def example_table_def sum_column_def cell_def)
  from C9_single_state [OF h1 h2 h3] h1 h2 h3 v show ?thesis by blast
qed

text \<open>
  C6, as stated, fails: the table \<open>sparse_table\<close> has no row for Kerala in 2012, so the
  filtering keeps zero rows, and it has no theft column, so the column selection on the
  grouped frame raises \<^verbatim>\<open>KeyError\<close> instead of giving an empty table.
\<close>

theorem C6_zero_rows_counterexample:
  "rows (filter_rows (\<lambda>r. state r = selected_state theft_2012_kerala)
          (filter_rows (\<lambda>r. year r = selected_year theft_2012_kerala) (data sparse_session)))
     = []
   \<and> selected_state theft_2012_kerala \<noteq> ''All''
   \<and> tab1 theft_2012_kerala sparse_session = Inl (KeyError [''THEFT''])"
  by (simp add: tab1_def Let_def theft_2012_kerala_def sparse_session_def sparse_table_def
      crime_column_def crime_types_def groupby_sum_def filter_rows_def)

text \<open>
  C6, amended. For every table that has the selected crime type's column and every
  selection for which the filtering keeps zero rows, the first block returns (no exception)
  and \<open>state_data\<close> is the empty table.
\<close>

theorem C6_empty_result:
  assumes "map_of crime_types (selected_crime sel) = Some c"
    and "c \<in> set (columns (data s))"
    and "kept_rows sel (rows (data s)) = []"
  shows "\<exists>s'. tab1 sel s = Inr s' \<and> state_data s' = [] \<and> rows (filtered_data s') = []"
  unfolding tab1_Inr [OF assms(1,2)] by (simp add: assms(3))

theorem C6_empty_result_witness:
  "map_of crime_types (selected_crime nowhere_2013) = Some ''MURDER''
   \<and> ''MURDER'' \<in> set (columns (data example_session))
   \<and> kept_rows nowhere_2013 (rows (data example_session)) = []
   \<and> (\<exists>s'. tab1 nowhere_2013 example_session = Inr s' \<and> state_data s' = [])"
proof -
  have h1: "map_of crime_types (selected_crime nowhere_2013) = Some ''MURDER''"
    by (simp add: nowhere_2013_def crime_types_def)
  have h2: "''MURDER'' \<in> set (columns (data example_session))"
    by (simp add: example_session_def example_table_def)
  have h3: "kept_rows nowhere_2013 (rows (data example_session)) = []"
    by (simp add: kept_rows_def nowhere_2013_def example_session_def example_table_def)
  from C6_empty_result [OF h1 h2 h3] h1 h2 h3 show ?thesis by blast
qed

subsection \<open>A missing crime column\<close>

text \<open>
  C5. When the selected crime type's column \<open>c\<close> is not in the table, no block returns a
  default: the first and the second block raise \<^verbatim>\<open>KeyError\<close> for \<open>c\<close> (the exception
  the specification calls UnknownCrimeColumnError), the third raises \<^verbatim>\<open>KeyError\<close> for the
  missing columns, \<open>c\<close> among them, and so does the run of the three.
\<close>

theorem C5_missing_column:
  assumes "map_of crime_types (selected_crime sel) = Some c"
    and "c \<notin> set (columns (data s))"
  shows "tab1 sel s = Inl (KeyError [c])
       \<and> tab2 sel s = Inl (KeyError [c])
       \<and> (\<exists>missing. tab3 sel s = Inl (KeyError missing) \<and> c \<in> set missing)
       \<and> tabs sel s = Inl (KeyError [c])"
proof -
  have t1: "tab1 sel s = Inl (KeyError [c])"
    using assms
    by (simp add: tab1_def Let_def crime_column_Some groupby_sum_def filter_rows_def)
  have t2: "tab2 sel s = Inl (KeyError [c])"
    using assms by (simp add: tab2_def crime_column_Some groupby_sum_def)
  have "c \<in> set (map snd crime_types)"
    using assms(1) by (metis map_of_SomeD set_zip_rightD zip_map_fst_snd)
  then have "c \<in> set (filter (\<lambda>c. c \<notin> set (columns (data s))) (map snd crime_types))"
    using assms(2) by simp
  then have t3: "\<exists>missing. tab3 sel s = Inl (KeyError missing) \<and> c \<in> set missing"
    by (cases "filter (\<lambda>c. c \<notin> set (columns (data s))) (map snd crime_types)")
       (auto simp: tab3_def select_columns_def)
  have t: "tabs sel s = Inl (KeyError [c])" by (simp add: tabs_def t1)
  from t1 t2 t3 t show ?thesis by blast
qed

theorem C5_missing_column_witness:
  "map_of crime_types (selected_crime theft_2012_goa) = Some ''THEFT''
   \<and> ''THEFT'' \<notin> set (columns (data example_session))
   \<and> tab1 theft_2012_goa example_session = Inl (KeyError [''THEFT''])
   \<and> tab2 theft_2012_goa example_session = Inl (KeyError [''THEFT''])
   \<and> tabs theft_2012_goa example_session = Inl (KeyError [''THEFT''])"
proof -
  have h1: "map_of crime_types (selected_crime theft_2012_goa) = Some ''THEFT''"
    by (simp add: theft_2012_goa_def crime_types_def)
  have h2: "''THEFT'' \<notin> set (columns (data example_session))"
    by (simp add: example_session_def example_table_def)
  from C5_missing_column [OF h1 h2] h1 h2 show ?thesis by blast
qed

subsection \<open>CategoryTotals\<close>

text \<open>
  C7. With the ten crime columns in the table, \<open>category_data\<close> is the specification's
  CategoryTotals: for each entry of \<open>crime_types\<close>, in order, the sum of its column over
  all rows of the unfiltered table, and the row is keyed by the label (\<^verbatim>\<open>Murder\<close>), not
  by the column name (\<^verbatim>\<open>MURDER\<close>).
\<close>

theorem C7_category_totals:
  assumes "set (map snd crime_types) \<subseteq> set (columns (data s))"
  shows "\<exists>s'. tab3 sel s = Inr s'
           \<and> category_data s' = CategoryTotals_spec (data s)
           \<and> map fst (category_data s') = map fst crime_types"
  unfolding tab3_Inr [OF assms]
  by (simp add: CategoryTotals_spec_def sum_column_def comp_def case_prod_unfold)

theorem C7_category_totals_witness:
  "set (map snd crime_types) \<subseteq> set (columns (data full_session))
   \<and> (\<exists>s'. tab3 murder_2013 full_session = Inr s'
          \<and> category_data s'
             = [(''Murder'', 7), (''Rape'', 7), (''Kidnapping & Abduction'', 7), (''Robbery'', 7),
                (''Burglary'', 7), (''Theft'', 7), (''Riots'', 7), (''Dowry Deaths'', 7),
                (''Assault on Women'', 7), (''Cruelty by Husband'', 7)])"
proof -
  have h: "set (map snd crime_types) \<subseteq> set (columns (data full_session))"
    by (simp add: full_session_def full_table_def)
  have v: "CategoryTotals_spec (data full_session)
             = [(''Murder'', 7), (''Rape'', 7), (''Kidnapping & Abduction'', 7), (''Robbery'', 7),
                (''Burglary'', 7), (''Theft'', 7), (''Riots'', 7), (''Dowry Deaths'', 7),
                (''Assault on Women'', 7), (''Cruelty by Husband'', 7)]"
    by (simp add: CategoryTotals_spec_def full_session_def full_table_def crime_types_def cell_def)
  from C7_category_totals [OF h, of murder_2013] h v show ?thesis by auto
qed

text \<open>
  C10. With the ten crime columns in the table, \<open>category_data\<close> has exactly ten rows,
  whose labels are those of \<open>crime_types\<close> in its order, whatever the rows of the table.
\<close>

theorem C10_ten_categories:
  assumes "set (map snd crime_types) \<subseteq> set (columns (data s))"
  shows "\<exists>s'. tab3 sel s = Inr s'
           \<and> length (category_data s') = 10
           \<and> map fst (category_data s')
               = [''Murder'', ''Rape'', ''Kidnapping & Abduction'', ''Robbery'', ''Burglary'',
                  ''Theft'', ''Riots'', ''Dowry Deaths'', ''Assault on Women'',
                  ''Cruelty by Husband'']"
proof -
  have labels: "map fst crime_types
     = [''Murder'', ''Rape'', ''Kidnapping & Abduction'', ''Robbery'', ''Burglary'',
        ''Theft'', ''Riots'', ''Dowry Deaths'', ''Assault on Women'', ''Cruelty by Husband'']"
    by (simp add: crime_types_def)
  have n: "length crime_types = 10" by (simp add: crime_types_def)
  have fsts: "map fst (map (\<lambda>(label, c). (label, sum_column c (rows (data s)))) crime_types)
                = map fst crime_types"
    by (simp add: comp_def case_prod_unfold)
  show ?thesis
    unfolding tab3_Inr [OF assms] using n labels fsts by simp
qed

theorem C10_ten_categories_witness:
  "set (map snd crime_types) \<subseteq> set (columns (data stale_session))
   \<and> (\<exists>s'. tab3 theft_2012_goa stale_session = Inr s'
          \<and> length (category_data s') = 10
          \<and> map fst (category_data s')
               = [''Murder'', ''Rape'', ''Kidnapping & Abduction'', ''Robbery'', ''Burglary'',
                  ''Theft'', ''Riots'', ''Dowry Deaths'', ''Assault on Women'',
                  ''Cruelty by Husband''])"
proof -
  have h: "set (map snd crime_types) \<subseteq> set (columns (data stale_session))"
    by (simp add: stale_session_def full_table_def)
  from C10_ten_categories [OF h, of theft_2012_goa] h show ?thesis by blast
qed

subsection \<open>YearTotals and CategoryTotals ignore the filters\<close>

text \<open>
  C2. On one table, two selections with the same crime type give the same \<open>yearly_data\<close>
  (or the same exception), whatever their years and states, and any two selections give
  the same \<open>category_data\<close>: the second block groups the whole unfiltered table by year
  and sums the selected column, the third sums the ten columns over the whole table.
\<close>

theorem C2_filters_ignored:
  assumes "data s1 = data s2" and "selected_crime sel1 = selected_crime sel2"
  shows "map_sum id yearly_data (tab2 sel1 s1) = map_sum id yearly_data (tab2 sel2 s2)
       \<and> map_sum id category_data (tab3 sel1 s1) = map_sum id category_data (tab3 sel3 s2)
       \<and> map_sum id yearly_data (tab2 sel1 s1)
           = (case crime_column (selected_crime sel1) of
                Inl e \<Rightarrow> Inl e
              | Inr c \<Rightarrow> groupby_sum year c (data s1))
       \<and> map_sum id category_data (tab3 sel1 s1)
           = (case select_columns (map snd crime_types) (data s1) of
                Inl e \<Rightarrow> Inl e
              | Inr sub \<Rightarrow> assign_first (map fst crime_types) (sum_reset_index sub))"
  by (simp only: tab2_result tab3_result assms simp_thms)

theorem C2_filters_ignored_witness:
  "data full_session = data stale_session
   \<and> selected_crime murder_2013 = selected_crime murder_2012_goa
   \<and> map_sum id yearly_data (tab2 murder_2013 full_session) = Inr [(2012, 1), (2013, 6)]
   \<and> map_sum id yearly_data (tab2 murder_2012_goa stale_session) = Inr [(2012, 1), (2013, 6)]
   \<and> map_sum id category_data (tab3 murder_2013 full_session)
       = map_sum id category_data (tab3 theft_2012_goa stale_session)"
proof -
  have h1: "data full_session = data stale_session"
    by (simp add: full_session_def stale_session_def)
  have h2: "selected_crime murder_2013 = selected_crime murder_2012_goa"
    by (simp add: murder_2013_def murder_2012_goa_def)
  have v: "map_sum id yearly_data (tab2 murder_2013 full_session) = Inr [(2012, 1), (2013, 6)]"
    by (simp add: tab2_def murder_2013_def crime_column_Murder groupby_sum_def full_session_def
        full_table_def crime_types_def sum_column_def cell_def)
  from C2_filters_ignored [OF h1 h2, of theft_2012_goa] h1 h2 v show ?thesis by simp
qed

subsection \<open>The loader\<close>

text \<open>
  C4. When \<^verbatim>\<open>load_data\<close> returns a table, both files were there, the table has the rows
  of the 2001-2012 file followed by the rows of the 2013 file, none dropped and none
  merged, each with its own counts; every state and district is the source's text
  stripped, so it has no leading or trailing whitespace; and every year is the integer
  that the four digits of the source's year text denote.
\<close>

theorem C4_load_data:
  assumes "load_data fs = Inr d"
  shows "\<exists>a b. fs path_2001_2012 = Some a \<and> fs path_2013 = Some b
          \<and> length (rows d) = length (rows a) + length (rows b)
          \<and> map counts (rows d)
              = map (\<lambda>r. counts r |` set (columns a)) (rows a)
                @ map (\<lambda>r. counts r |` set (columns b)) (rows b)
          \<and> map state (rows d) = map (\<lambda>r. strip (state r)) (rows a @ rows b)
          \<and> map district (rows d) = map (\<lambda>r. strip (district r)) (rows a @ rows b)
          \<and> map year (rows d) = map (\<lambda>r. digits_value (year r)) (rows a @ rows b)
          \<and> list_all (\<lambda>r. length (year r) = 4 \<and> list_all is_digit (year r)) (rows a @ rows b)
          \<and> (\<forall>r \<in> set (rows d). trimmed (state r) \<and> trimmed (district r))"
proof -
  from assms obtain a b rs where
    b: "fs path_2013 = Some b" and a: "fs path_2001_2012 = Some a" and
    conv: "convert_years (rows (concat_frames a b)) = Inr rs" and
    d: "d = \<lparr>columns = columns (concat_frames a b),
             rows = map (\<lambda>r. r\<lparr>district := strip (district r)\<rparr>)
                      (map (\<lambda>r. r\<lparr>state := strip (state r)\<rparr>) rs)\<rparr>"
    by (auto simp: load_data_def read_csv_def Let_def split: option.splits sum.splits)
  note c = convert_years_Inr [OF conv]
  have cat: "rows (concat_frames a b)
               = map (reindex (columns a)) (rows a) @ map (reindex (columns b)) (rows b)"
    by (simp add: concat_frames_def)
  have rd: "rows d = map (\<lambda>r. r\<lparr>state := strip (state r), district := strip (district r)\<rparr>) rs"
    by (simp add: d comp_def)
  have st: "map state (rows d) = map (\<lambda>r. strip (state r)) (rows a @ rows b)"
  proof -
    have "map state (rows d) = map strip (map state rs)" by (simp add: rd comp_def)
    also have "\<dots> = map strip (map state (rows (concat_frames a b)))" using c by simp
    also have "\<dots> = map (\<lambda>r. strip (state r)) (rows a @ rows b)"
      by (simp add: cat reindex_def comp_def)
    finally show ?thesis .
  qed
  have di: "map district (rows d) = map (\<lambda>r. strip (district r)) (rows a @ rows b)"
  proof -
    have "map district (rows d) = map strip (map district rs)" by (simp add: rd comp_def)
    also have "\<dots> = map strip (map district (rows (concat_frames a b)))" using c by simp
    also have "\<dots> = map (\<lambda>r. strip (district r)) (rows a @ rows b)"
      by (simp add: cat reindex_def comp_def)
    finally show ?thesis .
  qed
  have co: "map counts (rows d)
              = map (\<lambda>r. counts r |` set (columns a)) (rows a)
                @ map (\<lambda>r. counts r |` set (columns b)) (rows b)"
  proof -
    have "map counts (rows d) = map counts rs" by (simp add: rd comp_def)
    also have "\<dots> = map counts (rows (concat_frames a b))" using c by simp
    also have "\<dots> = map (\<lambda>r. counts r |` set (columns a)) (rows a)
                      @ map (\<lambda>r. counts r |` set (columns b)) (rows b)"
      by (simp add: cat reindex_def comp_def)
    finally show ?thesis .
  qed
  have ye: "map year (rows d) = map (\<lambda>r. digits_value (year r)) (rows a @ rows b)"
  proof -
    have "map year (rows d) = map year rs" by (simp add: rd comp_def)
    also have "\<dots> = map (\<lambda>r. digits_value (year r)) (rows (concat_frames a b))"
      using c by simp
    also have "\<dots> = map (\<lambda>r. digits_value (year r)) (rows a @ rows b)"
      by (simp add: cat reindex_def comp_def)
    finally show ?thesis .
  qed
  have dg: "list_all (\<lambda>r. length (year r) = 4 \<and> list_all is_digit (year r)) (rows a @ rows b)"
  proof -
    have "list_all (\<lambda>r. length (year r) = 4 \<and> list_all is_digit (year r))
            (rows (concat_frames a b))"
      using c by simp
    then show ?thesis by (simp add: cat list.pred_map comp_def reindex_def)
  qed
  have len: "length (rows d) = length (rows a) + length (rows b)"
    using arg_cong [OF st, of length] by simp
  have each: "\<forall>r \<in> set (rows d). trimmed (state r) \<and> trimmed (district r)"
    by (auto simp: rd trimmed_strip)
  from a b len co st di ye dg each show ?thesis by blast
qed

theorem C4_load_data_witness:
  "\<exists>d. load_data example_files = Inr d
      \<and> length (rows d) = 2
      \<and> map state (rows d) = [''Goa'', ''Kerala'']
      \<and> map district (rows d) = [''North Goa'', ''Idukki'']
      \<and> map year (rows d) = [2001, 2013]
      \<and> map (\<lambda>r. counts r ''THEFT'') (rows d) = [None, Some 2]"
proof -
  have run: "map_sum id (\<lambda>d. (map state (rows d), map district (rows d), map year (rows d)))
               (load_data example_files)
             = Inr ([''Goa'', ''Kerala''], [''North Goa'', ''Idukki''], [2001, 2013])"
    by (simp add: load_data_def read_csv_def example_files_def path_2013_def
        path_2001_2012_def ipc_2013_file_def ipc_2001_2012_file_def concat_frames_def
        reindex_def to_datetime_year_def is_digit_def digits_value_def strip_def isspace_def
        Let_def)
  then obtain d where d: "load_data example_files = Inr d"
    by (cases "load_data example_files") auto
  have a: "example_files path_2001_2012 = Some ipc_2001_2012_file"
    by (simp add: example_files_def path_2013_def path_2001_2012_def)
  have b: "example_files path_2013 = Some ipc_2013_file"
    by (simp add: example_files_def path_2013_def path_2001_2012_def)
  from C4_load_data [OF d] a b have
    len: "length (rows d) = length (rows ipc_2001_2012_file) + length (rows ipc_2013_file)" and
    cnt: "map counts (rows d)
            = map (\<lambda>r. counts r |` set (columns ipc_2001_2012_file)) (rows ipc_2001_2012_file)
              @ map (\<lambda>r. counts r |` set (columns ipc_2013_file)) (rows ipc_2013_file)"
    by auto
  have l2: "length (rows d) = 2"
    by (simp add: len ipc_2013_file_def ipc_2001_2012_file_def)
  have "map (\<lambda>r. counts r ''THEFT'') (rows d) = map (\<lambda>m. m ''THEFT'') (map counts (rows d))"
    by (simp add: comp_def)
  also have "\<dots> = [None, Some 2]"
    by (simp add: cnt ipc_2013_file_def ipc_2001_2012_file_def restrict_map_def)
  finally have theft: "map (\<lambda>r. counts r ''THEFT'') (rows d) = [None, Some 2]" .
  from run d l2 theft show ?thesis by simp
qed

subsection \<open>Determinism\<close>

text \<open>
  C8. The loader's result depends on the contents of its two files only, so loading the
  same files again gives the same table. The three results of a run depend on the table
  and the selection only, not on what the script's other variables held before, so two
  runs on equal inputs give equal \<open>state_data\<close>, \<open>yearly_data\<close> and \<open>category_data\<close>
  (or the same exception). A run that returns leaves \<open>data\<close> as it was.
\<close>

theorem C8_deterministic:
  assumes "fs1 path_2013 = fs2 path_2013" and "fs1 path_2001_2012 = fs2 path_2001_2012"
    and "data s1 = data s2"
  shows "load_data fs1 = load_data fs2
       \<and> map_sum id outputs (tabs sel s1) = map_sum id outputs (tabs sel s2)
       \<and> map_sum id data (tabs sel s1) = map_sum id (\<lambda>s'. data s1) (tabs sel s1)"
proof (intro conjI)
  show "load_data fs1 = load_data fs2" by (rule load_data_reads [OF assms(1,2)])
  show "map_sum id outputs (tabs sel s1) = map_sum id outputs (tabs sel s2)"
    by (simp only: tabs_outputs tab1_result tab2_result tab3_result assms(3))
  show "map_sum id data (tabs sel s1) = map_sum id (\<lambda>s'. data s1) (tabs sel s1)"
    by (cases "tabs sel s1") (simp_all add: tabs_data)
qed

theorem C8_deterministic_witness:
  "example_files path_2013 = more_files path_2013
   \<and> example_files path_2001_2012 = more_files path_2001_2012
   \<and> data full_session = data stale_session
   \<and> load_data example_files = load_data more_files
   \<and> map_sum id outputs (tabs murder_2013 stale_session)
       = Inr ([(''Goa'', 2), (''Kerala'', 4)], [(2012, 1), (2013, 6)],
              CategoryTotals_spec full_table)
   \<and> map_sum id data (tabs murder_2013 full_session) = Inr full_table"
proof -
  have h1: "example_files path_2013 = more_files path_2013"
    by (simp add: more_files_def path_2013_def)
  have h2: "example_files path_2001_2012 = more_files path_2001_2012"
    by (simp add: more_files_def path_2001_2012_def)
  have h3: "data full_session = data stale_session"
    by (simp add: full_session_def stale_session_def)
  have all_cols: "set (map snd crime_types) \<subseteq> set (columns (data full_session))"
    by (simp add: full_session_def full_table_def)
  have v: "map_sum id outputs (tabs murder_2013 full_session)
             = Inr ([(''Goa'', 2), (''Kerala'', 4)], [(2012, 1), (2013, 6)],
                    CategoryTotals_spec full_table)"
    by (simp add: tabs_def tab1_def tab2_def tab3_Inr outputs_def Let_def murder_2013_def
        crime_column_Murder groupby_sum_def filter_rows_def full_session_def full_table_def
        sum_column_def cell_def crime_types_def CategoryTotals_spec_def)
  then obtain s' where s': "tabs murder_2013 full_session = Inr s'"
    by (cases "tabs murder_2013 full_session") auto
  have d: "data full_session = full_table" by (simp add: full_session_def)
  from C8_deterministic [OF h1 h2 h3, of murder_2013] h1 h2 h3 v s' d show ?thesis by simp
qed

end
